theory Spec2Isabelle
  imports Complex_Main
begin

section \<open>JavaScript numbers and values\<close>

text \<open>
  The calculator (\<^verbatim>\<open>src/packages/data/DPRCalculator.ts\<close>) computes with JavaScript
  numbers. A number is modelled as an exact real, or one of the three non-finite values
  a division by zero or an arithmetic step on \<^verbatim>\<open>undefined\<close> produces. Rounding of
  doubles and the sign of zero are not modelled: a zero is always the positive zero.
\<close>

datatype jsnum = Fin real | PosInf | NegInf | NaN

text \<open>The infinity with the given sign (\<open>True\<close> is positive).\<close>

fun inf_of :: "bool \<Rightarrow> jsnum" where
  "inf_of True = PosInf"
| "inf_of False = NegInf"

fun js_add :: "jsnum \<Rightarrow> jsnum \<Rightarrow> jsnum" where
  "js_add (Fin a) (Fin b) = Fin (a + b)"
| "js_add NaN _ = NaN"
| "js_add _ NaN = NaN"
| "js_add PosInf NegInf = NaN"
| "js_add NegInf PosInf = NaN"
| "js_add PosInf _ = PosInf"
| "js_add _ PosInf = PosInf"
| "js_add NegInf _ = NegInf"
| "js_add _ NegInf = NegInf"

fun js_neg :: "jsnum \<Rightarrow> jsnum" where
  "js_neg (Fin a) = Fin (- a)"
| "js_neg PosInf = NegInf"
| "js_neg NegInf = PosInf"
| "js_neg NaN = NaN"

definition js_sub :: "jsnum \<Rightarrow> jsnum \<Rightarrow> jsnum" where
  "js_sub a b = js_add a (js_neg b)"

fun js_mul :: "jsnum \<Rightarrow> jsnum \<Rightarrow> jsnum" where
  "js_mul (Fin a) (Fin b) = Fin (a * b)"
| "js_mul NaN _ = NaN"
| "js_mul _ NaN = NaN"
| "js_mul (Fin a) PosInf = (if a = 0 then NaN else inf_of (0 < a))"
| "js_mul (Fin a) NegInf = (if a = 0 then NaN else inf_of (a < 0))"
| "js_mul PosInf (Fin b) = (if b = 0 then NaN else inf_of (0 < b))"
| "js_mul NegInf (Fin b) = (if b = 0 then NaN else inf_of (b < 0))"
| "js_mul PosInf PosInf = PosInf"
| "js_mul PosInf NegInf = NegInf"
| "js_mul NegInf PosInf = NegInf"
| "js_mul NegInf NegInf = PosInf"

fun js_div :: "jsnum \<Rightarrow> jsnum \<Rightarrow> jsnum" where
  "js_div (Fin a) (Fin b) =
     (if b = 0 then (if a = 0 then NaN else inf_of (0 < a)) else Fin (a / b))"
| "js_div NaN _ = NaN"
| "js_div _ NaN = NaN"
| "js_div (Fin a) _ = Fin 0"
| "js_div PosInf (Fin b) = inf_of (0 \<le> b)"
| "js_div NegInf (Fin b) = inf_of (b < 0)"
| "js_div _ _ = NaN"

text \<open>\<^verbatim>\<open>N ** 2\<close>.\<close>

fun js_sq :: "jsnum \<Rightarrow> jsnum" where
  "js_sq (Fin a) = Fin (a ^ 2)"
| "js_sq NaN = NaN"
| "js_sq _ = PosInf"

text \<open>\<^verbatim>\<open>a > b\<close> on numbers: false as soon as one side is \<^verbatim>\<open>NaN\<close>.\<close>

fun js_gt :: "jsnum \<Rightarrow> jsnum \<Rightarrow> bool" where
  "js_gt (Fin a) (Fin b) = (b < a)"
| "js_gt NaN _ = False"
| "js_gt _ NaN = False"
| "js_gt PosInf PosInf = False"
| "js_gt PosInf _ = True"
| "js_gt _ PosInf = False"
| "js_gt NegInf _ = False"
| "js_gt _ NegInf = True"

text \<open>\<^verbatim>\<open>a < b\<close> is \<^verbatim>\<open>b > a\<close> with the operands evaluated in the other order.\<close>

definition js_lt :: "jsnum \<Rightarrow> jsnum \<Rightarrow> bool" where
  "js_lt a b = js_gt b a"

text \<open>
  The values a property of this program can hold: \<^verbatim>\<open>undefined\<close>, a number, or a
  method (a function object, as \<^verbatim>\<open>DiceSet.prototype.length\<close>). Used as a number,
  \<^verbatim>\<open>undefined\<close> and a function object both convert to \<^verbatim>\<open>NaN\<close>.
\<close>

datatype jsval = Undefined | Num jsnum | Method

fun to_number :: "jsval \<Rightarrow> jsnum" where
  "to_number (Num n) = n"
| "to_number Undefined = NaN"
| "to_number Method = NaN"

text \<open>\<^verbatim>\<open>v == 0\<close>: loose equality with the number zero.\<close>

fun loose_eq0 :: "jsval \<Rightarrow> bool" where
  "loose_eq0 (Num (Fin a)) = (a = 0)"
| "loose_eq0 _ = False"

text \<open>A parameter with a default value takes it when the argument is \<^verbatim>\<open>undefined\<close>.\<close>

fun default_param :: "jsval \<Rightarrow> jsval \<Rightarrow> jsval" where
  "default_param Undefined dflt = dflt"
| "default_param v dflt = v"

text \<open>The only exception this code can raise: a property read on \<^verbatim>\<open>undefined\<close>.\<close>

datatype js_error = TypeError

section \<open>Die\<close>

record Die =
  sides :: jsval
  reroll :: jsval
  minRoll :: jsval

text \<open>
  \<^verbatim>\<open>constructor(sides, reroll = 0, minRoll = 1)\<close>: three assignments, no check and
  no \<^verbatim>\<open>throw\<close>.
\<close>

definition new_Die :: "jsval \<Rightarrow> jsval \<Rightarrow> jsval \<Rightarrow> Die" where
  "new_Die s r m =
     \<lparr>sides = s,
      reroll = default_param r (Num (Fin 0)),
      minRoll = default_param m (Num (Fin 1))\<rparr>"

definition getSides :: "Die \<Rightarrow> jsval" where
  "getSides d = sides d"

text \<open>\<^verbatim>\<open>T(N) = (N ** 2 + N) / 2\<close>.\<close>

definition T :: "jsnum \<Rightarrow> jsnum" where
  "T N = js_div (js_add (js_sq N) N) (Fin 2)"

text \<open>
  \<^verbatim>\<open>getAverageRoll\<close>. The second branch subtracts \<^verbatim>\<open>T(this.minRoll)\<close>. The
  statement \<^verbatim>\<open>else this.reroll <= this.minRoll;\<close> of the source is an expression
  statement whose value is dropped; the last \<^verbatim>\<open>return\<close> follows it.
\<close>

function getAverageRoll :: "Die \<Rightarrow> jsnum" where
  "getAverageRoll d =
     (let S = to_number (sides d); R = to_number (reroll d); M = to_number (minRoll d) in
      if loose_eq0 (reroll d) then
        js_div (js_add (T S) (T (js_sub M (Fin 1)))) S
      else if js_gt R M then
        js_div
          (js_add
            (js_sub (js_sub (js_add (T S) (T (js_sub M (Fin 1)))) (js_mul R M)) (T M))
            (js_mul R (getAverageRoll (new_Die (sides d) (Num (Fin 0)) (minRoll d)))))
          S
      else
        js_div
          (js_add
            (js_sub (js_add (T S) (T (js_sub M (Fin 1)))) (js_mul R M))
            (js_mul R (getAverageRoll (new_Die (sides d) (Num (Fin 0)) (minRoll d)))))
          S)"
  by pat_completeness auto
termination
  by (relation "measure (\<lambda>d. if loose_eq0 (reroll d) then 0 else 1)")
     (auto simp: new_Die_def)

declare getAverageRoll.simps [simp del]

text \<open>
  The same method with a bound on the number of nested activations: \<open>None\<close> when the
  bound is used up before the outermost call returns.
\<close>

fun getAverageRoll_fuel :: "nat \<Rightarrow> Die \<Rightarrow> jsnum option" where
  "getAverageRoll_fuel 0 d = None"
| "getAverageRoll_fuel (Suc n) d =
     (let S = to_number (sides d); R = to_number (reroll d); M = to_number (minRoll d) in
      if loose_eq0 (reroll d) then
        Some (js_div (js_add (T S) (T (js_sub M (Fin 1)))) S)
      else if js_gt R M then
        (case getAverageRoll_fuel n (new_Die (sides d) (Num (Fin 0)) (minRoll d)) of
           None \<Rightarrow> None
         | Some avg \<Rightarrow>
             Some (js_div
               (js_add
                 (js_sub (js_sub (js_add (T S) (T (js_sub M (Fin 1)))) (js_mul R M)) (T M))
                 (js_mul R avg))
               S))
      else
        (case getAverageRoll_fuel n (new_Die (sides d) (Num (Fin 0)) (minRoll d)) of
           None \<Rightarrow> None
         | Some avg \<Rightarrow>
             Some (js_div
               (js_add
                 (js_sub (js_add (T S) (T (js_sub M (Fin 1)))) (js_mul R M))
                 (js_mul R avg))
               S)))"

section \<open>DiceSet\<close>

record DiceSet =
  dice :: "Die list"

text \<open>
  An element of an array handed to the \<^verbatim>\<open>DiceSet\<close> constructor: an object with
  the properties \<^verbatim>\<open>sides\<close>, \<^verbatim>\<open>reroll\<close>, \<^verbatim>\<open>minRoll\<close> and \<^verbatim>\<open>id\<close> (an absent
  property reads as \<^verbatim>\<open>undefined\<close>), or a primitive value, as the array of numbers
  that \<^verbatim>\<open>calculateDefaultCritDice\<close> builds.
\<close>

datatype elem = Obj jsval jsval jsval jsval | Prim jsval

text \<open>
  What the constructor's parameter \<^verbatim>\<open>dice\<close> can be bound to: an array, a
  \<^verbatim>\<open>DiceSet\<close> instance (\<^verbatim>\<open>Attack\<close> passes its fields \<^verbatim>\<open>damage_dice\<close> and
  \<^verbatim>\<open>crit_dice\<close>, declared as \<^verbatim>\<open>DiceSet\<close>), or \<^verbatim>\<open>undefined\<close>/\<^verbatim>\<open>null\<close>.
\<close>

datatype dice_arg = ArrayOf "elem list" | InstanceOf DiceSet | Nullish

text \<open>
  \<^verbatim>\<open>dice.length\<close>: the number of elements of an array; on a \<^verbatim>\<open>DiceSet\<close> instance
  the method \<^verbatim>\<open>length()\<close> itself, a function object, since the instance has no own
  property of that name; a \<^verbatim>\<open>TypeError\<close> on \<^verbatim>\<open>undefined\<close>.
\<close>

fun length_prop :: "dice_arg \<Rightarrow> js_error + jsval" where
  "length_prop (ArrayOf xs) = Inr (Num (Fin (real (length xs))))"
| "length_prop (InstanceOf ds) = Inr Method"
| "length_prop Nullish = Inl TypeError"

text \<open>\<^verbatim>\<open>dice[i]\<close>: \<^verbatim>\<open>undefined\<close> out of range and on a \<^verbatim>\<open>DiceSet\<close> instance.\<close>

fun element_at :: "dice_arg \<Rightarrow> nat \<Rightarrow> js_error + elem" where
  "element_at (ArrayOf xs) i = Inr (if i < length xs then xs ! i else Prim Undefined)"
| "element_at (InstanceOf ds) i = Inr (Prim Undefined)"
| "element_at Nullish i = Inl TypeError"

text \<open>
  \<^verbatim>\<open>new Die(dice[i].sides, dice[i].reroll, dice[i].minRoll)\<close>: a property read on
  \<^verbatim>\<open>undefined\<close> throws, on another primitive it gives \<^verbatim>\<open>undefined\<close>.
\<close>

fun die_of_elem :: "elem \<Rightarrow> js_error + Die" where
  "die_of_elem (Obj s r m ident) = Inr (new_Die s r m)"
| "die_of_elem (Prim Undefined) = Inl TypeError"
| "die_of_elem (Prim v) = Inr (new_Die Undefined Undefined Undefined)"

text \<open>
  The constructor's loop \<^verbatim>\<open>for (let i = 0; i < dice.length; i++) this.dice.push(...)\<close>,
  from index \<open>i\<close> with the dice pushed so far.
\<close>

function DiceSet_loop :: "dice_arg \<Rightarrow> nat \<Rightarrow> Die list \<Rightarrow> js_error + Die list" where
  "DiceSet_loop arg i acc =
     (case length_prop arg of
        Inl e \<Rightarrow> Inl e
      | Inr len \<Rightarrow>
          if js_lt (Fin (real i)) (to_number len) then
            (case element_at arg i of
               Inl e \<Rightarrow> Inl e
             | Inr x \<Rightarrow>
                 (case die_of_elem x of
                    Inl e \<Rightarrow> Inl e
                  | Inr d \<Rightarrow> DiceSet_loop arg (Suc i) (acc @ [d])))
          else Inr acc)"
  by pat_completeness auto
termination
proof (relation "measure (\<lambda>(arg, i, acc). case arg of ArrayOf xs \<Rightarrow> length xs - i | _ \<Rightarrow> 0)")
  show "wf (measure (\<lambda>(arg, i, acc). case arg of ArrayOf xs \<Rightarrow> length xs - i | _ \<Rightarrow> 0))"
    by simp
next
  fix arg :: dice_arg and i :: nat and acc :: "Die list" and len x d
  assume "length_prop arg = Inr len" and "js_lt (Fin (real i)) (to_number len)"
  then show "((arg, Suc i, acc @ [d]), arg, i, acc)
      \<in> measure (\<lambda>(arg, i, acc). case arg of ArrayOf xs \<Rightarrow> length xs - i | _ \<Rightarrow> 0)"
    by (cases arg) (auto simp: js_lt_def)
qed

declare DiceSet_loop.simps [simp del]

definition new_DiceSet :: "dice_arg \<Rightarrow> js_error + DiceSet" where
  "new_DiceSet arg =
     (case DiceSet_loop arg 0 [] of Inl e \<Rightarrow> Inl e | Inr ds \<Rightarrow> Inr \<lparr>dice = ds\<rparr>)"

text \<open>\<^verbatim>\<open>getAverageRolls\<close>: the running total over \<^verbatim>\<open>this.dice\<close>, from 0.\<close>

definition getAverageRolls :: "DiceSet \<Rightarrow> jsnum" where
  "getAverageRolls ds = foldl (\<lambda>total d. js_add total (getAverageRoll d)) (Fin 0) (dice ds)"

text \<open>\<^verbatim>\<open>getDie(N)\<close>: \<open>None\<close> is \<^verbatim>\<open>undefined\<close>, read out of range.\<close>

definition getDie :: "DiceSet \<Rightarrow> nat \<Rightarrow> Die option" where
  "getDie ds N = (if N < length (dice ds) then Some (dice ds ! N) else None)"

definition addDie :: "DiceSet \<Rightarrow> Die \<Rightarrow> DiceSet" where
  "addDie ds d = ds\<lparr>dice := dice ds @ [d]\<rparr>"

definition length_DiceSet :: "DiceSet \<Rightarrow> nat" where
  "length_DiceSet ds = length (dice ds)"

section \<open>Helper functions\<close>

text \<open>
  The loop of \<^verbatim>\<open>calculateDefaultCritDice\<close> over the indices
  \<open>0, \<dots>, 2 * length - 1\<close>: it pushes \<^verbatim>\<open>diceset.getDie(i % diceset.length()).getSides()\<close>,
  a primitive value, and a method call on \<^verbatim>\<open>undefined\<close> would throw.
\<close>

fun crit_sides_loop :: "DiceSet \<Rightarrow> nat list \<Rightarrow> js_error + elem list" where
  "crit_sides_loop ds [] = Inr []"
| "crit_sides_loop ds (i # rest) =
     (case getDie ds (i mod length_DiceSet ds) of
        None \<Rightarrow> Inl TypeError
      | Some d \<Rightarrow>
          (case crit_sides_loop ds rest of
             Inl e \<Rightarrow> Inl e
           | Inr xs \<Rightarrow> Inr (Prim (getSides d) # xs)))"

definition calculateDefaultCritDice :: "DiceSet \<Rightarrow> js_error + DiceSet" where
  "calculateDefaultCritDice diceset =
     (case crit_sides_loop diceset [0 ..< length_DiceSet diceset * 2] of
        Inl e \<Rightarrow> Inl e
      | Inr xs \<Rightarrow> new_DiceSet (ArrayOf xs))"

text \<open>
  \<^verbatim>\<open>p_hit(A, B, M = 1)\<close> and \<^verbatim>\<open>p_crit(crit_range, adv_mod)\<close>. The armor class, the
  bonus and the critical range are finite numbers and the advantage modifier is a
  natural number (1, 2 or 3 in the source's comments), so that both results are finite.
\<close>

definition p_hit :: "real \<Rightarrow> real \<Rightarrow> nat \<Rightarrow> real" where
  "p_hit A B M =
     (if A \<ge> B + 20 then 1 - (1 - 0.05) ^ M
      else if A \<le> B + 2 then 1 - (1 - 0.05) ^ M
      else 1 - (1 - (21 + B - A) / 20) ^ M)"

definition p_crit :: "real \<Rightarrow> nat \<Rightarrow> real" where
  "p_crit crit_range adv_mod = 1 - (1 - (21 - crit_range) / 20) ^ adv_mod"

section \<open>Attack\<close>

record Attack =
  name :: string
  attack_bonus :: real
  damage_bonus :: real
  damage_dice :: dice_arg
  crit_dice :: dice_arg
  advantage_modifier :: nat
  gwmsharp :: bool
  crit_range :: real
  target_AC :: real

definition new_Attack ::
  "string \<Rightarrow> real \<Rightarrow> real \<Rightarrow> dice_arg \<Rightarrow> dice_arg \<Rightarrow> nat \<Rightarrow> bool \<Rightarrow> real \<Rightarrow> real \<Rightarrow> Attack" where
  "new_Attack nm ab db dd cd am gs cr ac =
     \<lparr>name = nm, attack_bonus = ab, damage_bonus = db, damage_dice = dd, crit_dice = cd,
      advantage_modifier = am, gwmsharp = gs, crit_range = cr, target_AC = ac\<rparr>"

definition getEffectiveAttackBonus :: "Attack \<Rightarrow> real" where
  "getEffectiveAttackBonus a = (if gwmsharp a then attack_bonus a - 5 else attack_bonus a)"

definition getEffectiveDamageBonus :: "Attack \<Rightarrow> real" where
  "getEffectiveDamageBonus a = (if gwmsharp a then damage_bonus a + 10 else damage_bonus a)"

text \<open>
  \<^verbatim>\<open>getAverageFromDice\<close> wraps \<^verbatim>\<open>this.damage_dice\<close> in a new \<^verbatim>\<open>DiceSet\<close> before
  asking for its average.
\<close>

definition getAverageFromDice :: "Attack \<Rightarrow> js_error + jsnum" where
  "getAverageFromDice a =
     (case new_DiceSet (damage_dice a) of
        Inl e \<Rightarrow> Inl e
      | Inr ds \<Rightarrow>
          Inr (js_mul
            (Fin (p_hit (target_AC a) (getEffectiveAttackBonus a) (advantage_modifier a)))
            (getAverageRolls ds)))"

definition getAverageFromBonus :: "Attack \<Rightarrow> jsnum" where
  "getAverageFromBonus a =
     js_mul
       (Fin (p_hit (target_AC a) (getEffectiveAttackBonus a) (advantage_modifier a)))
       (Fin (getEffectiveDamageBonus a))"

definition getAverageFromCritFactor :: "Attack \<Rightarrow> js_error + jsnum" where
  "getAverageFromCritFactor a =
     (case new_DiceSet (crit_dice a) of
        Inl e \<Rightarrow> Inl e
      | Inr cs \<Rightarrow>
          (case new_DiceSet (damage_dice a) of
             Inl e \<Rightarrow> Inl e
           | Inr ds \<Rightarrow>
               Inr (js_mul
                 (Fin (p_crit (crit_range a) (advantage_modifier a)))
                 (js_sub (getAverageRolls cs) (getAverageRolls ds)))))"

definition getAverageTotal :: "Attack \<Rightarrow> js_error + jsnum" where
  "getAverageTotal a =
     (case getAverageFromDice a of
        Inl e \<Rightarrow> Inl e
      | Inr fromDice \<Rightarrow>
          (case getAverageFromCritFactor a of
             Inl e \<Rightarrow> Inl e
           | Inr fromCrit \<Rightarrow>
               Inr (js_add (js_add fromDice (getAverageFromBonus a)) fromCrit)))"

section \<open>Specification-side notions and the dice of the examples\<close>

text \<open>The triangular number of the specification, on exact reals.\<close>

definition triangular :: "real \<Rightarrow> real" where
  "triangular N = N * (N + 1) / 2"

text \<open>
  The dice an array of elements yields, by recursion on the array: what the
  constructor's loop computes (lemma \<open>DiceSet_loop_ArrayOf\<close> below).
\<close>

fun dice_from :: "elem list \<Rightarrow> js_error + Die list" where
  "dice_from [] = Inr []"
| "dice_from (x # xs) =
     (case die_of_elem x of
        Inl e \<Rightarrow> Inl e
      | Inr d \<Rightarrow> (case dice_from xs of Inl e \<Rightarrow> Inl e | Inr ds \<Rightarrow> Inr (d # ds)))"

text \<open>Plain dice: no reroll, minimum roll 1.\<close>

definition d6 :: Die where
  "d6 = \<lparr>sides = Num (Fin 6), reroll = Num (Fin 0), minRoll = Num (Fin 1)\<rparr>"

definition d8 :: Die where
  "d8 = \<lparr>sides = Num (Fin 8), reroll = Num (Fin 0), minRoll = Num (Fin 1)\<rparr>"

text \<open>
  An object literal \<^verbatim>\<open>{ "sides": s, "reroll": r, "minRoll": m, "id": ident }\<close>, as in the
  test script at the end of the source file.
\<close>

definition spec :: "real \<Rightarrow> real \<Rightarrow> real \<Rightarrow> real \<Rightarrow> elem" where
  "spec s r m ident = Obj (Num (Fin s)) (Num (Fin r)) (Num (Fin m)) (Num (Fin ident))"

definition specs_2d6 :: "elem list" where
  "specs_2d6 = [spec 6 0 1 1654967414633, spec 6 0 1 1654967414867]"

definition specs_4d6_6d8 :: "elem list" where
  "specs_4d6_6d8 =
     [spec 6 0 1 1654967445367, spec 6 0 1 1654967445501, spec 6 0 1 1654967445678,
      spec 6 0 1 1654967445828, spec 8 0 1 1654967455705, spec 8 0 1 1654967455896,
      spec 8 0 1 1654967456243, spec 8 0 1 1654967456903, spec 8 0 1 1654967457546,
      spec 8 0 1 1654967457819]"

definition dice_2d6 :: DiceSet where
  "dice_2d6 = \<lparr>dice = [d6, d6]\<rparr>"

definition dice_4d6_6d8 :: DiceSet where
  "dice_4d6_6d8 = \<lparr>dice = [d6, d6, d6, d6, d8, d8, d8, d8, d8, d8]\<rparr>"

text \<open>
  The attack of the worked example, built as the test script builds it: the two dice
  fields hold \<^verbatim>\<open>DiceSet\<close> instances (\<^verbatim>\<open>new DiceSet([...])\<close>). The script itself lists
  eight d8 in the critical dice; the worked example has six.
\<close>

definition my_attack :: Attack where
  "my_attack =
     new_Attack ''Holy Attack'' 9 5 (InstanceOf dice_2d6) (InstanceOf dice_4d6_6d8) 2 True 20 15"

text \<open>The same attack with the two arrays of object literals in the dice fields.\<close>

definition my_attack_arrays :: Attack where
  "my_attack_arrays =
     new_Attack ''Holy Attack'' 9 5 (ArrayOf specs_2d6) (ArrayOf specs_4d6_6d8) 2 True 20 15"

text \<open>A second attack: one d8, no advantage, no power attack.\<close>

definition longsword :: Attack where
  "longsword =
     new_Attack ''Longsword'' 5 3 (InstanceOf \<lparr>dice = [d8]\<rparr>)
       (InstanceOf \<lparr>dice = [d8, d8]\<rparr>) 1 False 20 15"

section \<open>Die: averages and termination\<close>

lemma T_Fin: "T (Fin x) = Fin (triangular x)"
  by (simp add: T_def triangular_def power2_eq_square algebra_simps)

lemma getAverageRoll_fuel_no_reroll:
  "getAverageRoll_fuel (Suc n) (new_Die s (Num (Fin 0)) m) =
     Some (getAverageRoll (new_Die s (Num (Fin 0)) m))"
  by (subst getAverageRoll.simps) (simp add: new_Die_def Let_def)

lemma getAverageRoll_plain:
  "S \<noteq> 0 \<Longrightarrow>
   getAverageRoll \<lparr>sides = Num (Fin S), reroll = Num (Fin 0), minRoll = Num (Fin M)\<rparr> =
     Fin ((triangular S + triangular (M - 1)) / S)"
  by (subst getAverageRoll.simps) (simp add: Let_def T_Fin js_sub_def)

lemma getAverageRoll_d6: "getAverageRoll d6 = Fin (7 / 2)"
  by (simp add: d6_def getAverageRoll_plain triangular_def)

lemma getAverageRoll_d8: "getAverageRoll d8 = Fin (9 / 2)"
  by (simp add: d8_def getAverageRoll_plain triangular_def)

text \<open>A die with no sides, and a die whose sides are \<^verbatim>\<open>undefined\<close>, average to \<^verbatim>\<open>NaN\<close>.\<close>

lemma getAverageRoll_zero_sides:
  "getAverageRoll \<lparr>sides = Num (Fin 0), reroll = Num (Fin 0), minRoll = Num (Fin 1)\<rparr> = NaN"
  by (subst getAverageRoll.simps) (simp add: Let_def T_Fin js_sub_def triangular_def)

lemma getAverageRoll_undefined_sides:
  "getAverageRoll \<lparr>sides = Undefined, reroll = Num (Fin 0), minRoll = Num (Fin 1)\<rparr> = NaN"
  by (subst getAverageRoll.simps) (simp add: Let_def T_def js_sub_def)

text \<open>
  C9. \<^verbatim>\<open>getAverageRoll\<close> returns for every die, whatever its fields hold (also a
  reroll threshold at or above the number of sides, zero sides, or \<^verbatim>\<open>undefined\<close>):
  two nested activations are always enough, because the only recursive call is on a die
  with reroll threshold 0, and that call returns with a single activation. The
  recursion depth is at most 1.
\<close>

theorem getAverageRoll_terminates_depth_one:
  "getAverageRoll_fuel (Suc (Suc n)) d = Some (getAverageRoll d) \<and>
   getAverageRoll_fuel (Suc 0) (new_Die (sides d) (Num (Fin 0)) (minRoll d)) =
     Some (getAverageRoll (new_Die (sides d) (Num (Fin 0)) (minRoll d)))"
proof
  show "getAverageRoll_fuel (Suc (Suc n)) d = Some (getAverageRoll d)"
    unfolding getAverageRoll_fuel.simps(2) [of "Suc n" d] getAverageRoll.simps [of d]
    by (simp only: getAverageRoll_fuel_no_reroll Let_def option.case if_distrib [of Some])
next
  show "getAverageRoll_fuel (Suc 0) (new_Die (sides d) (Num (Fin 0)) (minRoll d)) =
     Some (getAverageRoll (new_Die (sides d) (Num (Fin 0)) (minRoll d)))"
    by (rule getAverageRoll_fuel_no_reroll)
qed

text \<open>
  C4, as the code has it. For a die with finite \<open>sides = S \<ge> 1\<close>,
  \<open>rerollThreshold = R\<close> and \<open>minRoll = M\<close>, when \<open>R > M\<close> and \<open>R \<noteq> 0\<close> (the test
  \<^verbatim>\<open>reroll == 0\<close> comes first), \<^verbatim>\<open>getAverageRoll\<close> returns
  \<open>(triangular S + triangular (M - 1) - R * M - triangular M + R * avgNoReroll) / S\<close>,
  where \<open>avgNoReroll\<close> is the average of the die with the same sides and minimum roll
  and reroll threshold 0: the term subtracted is the triangular number of the minimum
  roll, not of the reroll threshold.
\<close>

theorem getAverageRoll_reroll_above_minRoll:
  assumes "sides d = Num (Fin S)" and "reroll d = Num (Fin R)" and "minRoll d = Num (Fin M)"
    and "1 \<le> S" and "M < R" and "R \<noteq> 0"
    and "getAverageRoll \<lparr>sides = Num (Fin S), reroll = Num (Fin 0), minRoll = Num (Fin M)\<rparr>
           = Fin avgNoReroll"
  shows "getAverageRoll d =
    Fin ((triangular S + triangular (M - 1) - R * M - triangular M + R * avgNoReroll) / S)"
  using assms
  by (subst getAverageRoll.simps) (simp add: Let_def T_Fin js_sub_def new_Die_def)

text \<open>The d6 that rerolls a 1 or a 2 once: \<open>S = 6\<close>, \<open>R = 2\<close>, \<open>M = 1\<close>, average 25/6.\<close>

theorem getAverageRoll_reroll_above_minRoll_witness:
  "(1::real) \<le> 6 \<and> (1::real) < 2 \<and> (2::real) \<noteq> 0 \<and>
   getAverageRoll \<lparr>sides = Num (Fin 6), reroll = Num (Fin 0), minRoll = Num (Fin 1)\<rparr> =
     Fin (7 / 2) \<and>
   getAverageRoll \<lparr>sides = Num (Fin 6), reroll = Num (Fin 2), minRoll = Num (Fin 1)\<rparr> =
     Fin (25 / 6)"
proof -
  have avg:
    "getAverageRoll \<lparr>sides = Num (Fin 6), reroll = Num (Fin 0), minRoll = Num (Fin 1)\<rparr> =
       Fin (7 / 2)"
    by (simp add: getAverageRoll_plain triangular_def)
  show ?thesis
    using getAverageRoll_reroll_above_minRoll
      [of "\<lparr>sides = Num (Fin 6), reroll = Num (Fin 2), minRoll = Num (Fin 1)\<rparr>" 6 2 1 "7 / 2"]
      avg
    by (simp add: triangular_def)
qed

text \<open>
  With the triangular number of the reroll threshold, as the specification writes the
  formula, the same die would average 23/6: the code does not return that value.
\<close>

theorem getAverageRoll_spec_formula_counterexample:
  "getAverageRoll \<lparr>sides = Num (Fin 6), reroll = Num (Fin 0), minRoll = Num (Fin 1)\<rparr> =
     Fin (7 / 2) \<and>
   getAverageRoll \<lparr>sides = Num (Fin 6), reroll = Num (Fin 2), minRoll = Num (Fin 1)\<rparr> \<noteq>
     Fin ((triangular 6 + triangular (1 - 1) - 2 * 1 - triangular 2 + 2 * (7 / 2)) / 6)"
  by (subst (2) getAverageRoll.simps)
     (simp add: Let_def T_Fin js_sub_def new_Die_def getAverageRoll_plain triangular_def)

section \<open>DiceSet: what the constructor builds\<close>

text \<open>On a \<^verbatim>\<open>DiceSet\<close> instance the loop condition is false at once.\<close>

lemma DiceSet_loop_InstanceOf: "DiceSet_loop (InstanceOf ds) i acc = Inr acc"
  by (subst DiceSet_loop.simps) (simp add: js_lt_def)

lemma new_DiceSet_InstanceOf: "new_DiceSet (InstanceOf ds) = Inr \<lparr>dice = []\<rparr>"
  by (simp add: new_DiceSet_def DiceSet_loop_InstanceOf)

lemma new_DiceSet_Nullish: "new_DiceSet Nullish = Inl TypeError"
  by (simp add: new_DiceSet_def DiceSet_loop.simps [of Nullish])

text \<open>On an array the loop visits the elements from index \<open>i\<close> on, in order.\<close>

lemma DiceSet_loop_ArrayOf:
  "i \<le> length xs \<Longrightarrow>
   DiceSet_loop (ArrayOf xs) i acc =
     (case dice_from (drop i xs) of Inl e \<Rightarrow> Inl e | Inr ds \<Rightarrow> Inr (acc @ ds))"
proof (induction "length xs - i" arbitrary: i acc)
  case 0
  then have "i = length xs" by simp
  then show ?case
    by (subst DiceSet_loop.simps) (simp add: js_lt_def)
next
  case (Suc k)
  then have lt: "i < length xs" and k: "k = length xs - Suc i" by simp_all
  have step: "DiceSet_loop (ArrayOf xs) (Suc i) acc' =
      (case dice_from (drop (Suc i) xs) of Inl e \<Rightarrow> Inl e | Inr ds \<Rightarrow> Inr (acc' @ ds))"
    for acc'
    using Suc.hyps(1) [OF k] lt by simp
  have drop: "drop i xs = xs ! i # drop (Suc i) xs"
    using lt by (simp add: Cons_nth_drop_Suc)
  show ?case
    by (subst DiceSet_loop.simps) (simp add: js_lt_def lt step drop split: sum.splits)
qed

lemma new_DiceSet_ArrayOf:
  "new_DiceSet (ArrayOf xs) =
     (case dice_from xs of Inl e \<Rightarrow> Inl e | Inr ds \<Rightarrow> Inr \<lparr>dice = ds\<rparr>)"
  by (simp add: new_DiceSet_def DiceSet_loop_ArrayOf split: sum.splits)

lemma new_DiceSet_specs_2d6: "new_DiceSet (ArrayOf specs_2d6) = Inr dice_2d6"
  by (simp add: new_DiceSet_ArrayOf specs_2d6_def spec_def dice_2d6_def d6_def new_Die_def)

lemma new_DiceSet_specs_4d6_6d8: "new_DiceSet (ArrayOf specs_4d6_6d8) = Inr dice_4d6_6d8"
  by (simp add: new_DiceSet_ArrayOf specs_4d6_6d8_def spec_def dice_4d6_6d8_def d6_def d8_def
      new_Die_def)

lemma getAverageRolls_empty: "getAverageRolls \<lparr>dice = []\<rparr> = Fin 0"
  by (simp add: getAverageRolls_def)

lemma getAverageRolls_2d6: "getAverageRolls dice_2d6 = Fin 7"
  by (simp add: getAverageRolls_def dice_2d6_def getAverageRoll_d6)

lemma getAverageRolls_4d6_6d8: "getAverageRolls dice_4d6_6d8 = Fin 41"
  by (simp add: getAverageRolls_def dice_4d6_6d8_def getAverageRoll_d6 getAverageRoll_d8)

text \<open>
  C10, as the code has it. Constructing a \<^verbatim>\<open>Die\<close> never signals an error: whatever
  numbers are given for the reroll threshold and the minimum roll, negative ones
  included, the constructor returns a \<^verbatim>\<open>Die\<close> that stores them unchanged, and the
  \<^verbatim>\<open>DiceSet\<close> constructor, which can fail with a \<^verbatim>\<open>TypeError\<close>, succeeds on every
  array of such objects and holds exactly those dice.
\<close>

theorem Die_construction_accepts_any_numbers:
  "new_Die s (Num r) (Num m) = \<lparr>sides = s, reroll = Num r, minRoll = Num m\<rparr> \<and>
   new_DiceSet (ArrayOf (map (\<lambda>(s, r, m, i). Obj s (Num r) (Num m) i) specs)) =
     Inr \<lparr>dice = map (\<lambda>(s, r, m, i). \<lparr>sides = s, reroll = Num r, minRoll = Num m\<rparr>) specs\<rparr>"
proof -
  have "dice_from (map (\<lambda>(s, r, m, i). Obj s (Num r) (Num m) i) specs) =
     Inr (map (\<lambda>(s, r, m, i). \<lparr>sides = s, reroll = Num r, minRoll = Num m\<rparr>) specs)"
    by (induction specs) (auto simp: new_Die_def)
  then show ?thesis
    by (simp add: new_DiceSet_ArrayOf new_Die_def)
qed

text \<open>
  A die with reroll threshold -1 and minimum roll -1 is constructed, alone and through
  the \<^verbatim>\<open>DiceSet\<close> constructor: no error is signalled.
\<close>

theorem Die_negative_parameters_counterexample:
  "new_Die (Num (Fin 6)) (Num (Fin (- 1))) (Num (Fin (- 1))) =
     \<lparr>sides = Num (Fin 6), reroll = Num (Fin (- 1)), minRoll = Num (Fin (- 1))\<rparr> \<and>
   new_DiceSet (ArrayOf [Obj (Num (Fin 6)) (Num (Fin (- 1))) (Num (Fin (- 1))) (Num (Fin 1))]) =
     Inr \<lparr>dice = [\<lparr>sides = Num (Fin 6), reroll = Num (Fin (- 1)), minRoll = Num (Fin (- 1))\<rparr>]\<rparr>"
  by (simp add: new_Die_def new_DiceSet_ArrayOf)


section \<open>The default critical dice\<close>

lemma crit_sides_loop_nonempty:
  "dice ds \<noteq> [] \<Longrightarrow>
   crit_sides_loop ds idxs =
     Inr (map (\<lambda>i. Prim (sides (dice ds ! (i mod length (dice ds))))) idxs)"
  by (induction idxs) (simp_all add: getDie_def length_DiceSet_def getSides_def)

lemma die_of_elem_Prim:
  "v \<noteq> Undefined \<Longrightarrow> die_of_elem (Prim v) = Inr (new_Die Undefined Undefined Undefined)"
  by (cases v) simp_all

lemma dice_from_Prim:
  "Undefined \<notin> set vs \<Longrightarrow>
   dice_from (map Prim vs) = Inr (replicate (length vs) (new_Die Undefined Undefined Undefined))"
  by (induction vs) (auto simp: die_of_elem_Prim)

text \<open>
  The array handed to the constructor holds the side counts themselves, not objects
  with a \<^verbatim>\<open>sides\<close> property: every die built from it has \<^verbatim>\<open>undefined\<close> sides, and the
  default reroll threshold and minimum roll.
\<close>

lemma calculateDefaultCritDice_defined_sides:
  assumes "dice ds \<noteq> []" and "Undefined \<notin> sides ` set (dice ds)"
  shows "calculateDefaultCritDice ds =
    Inr \<lparr>dice = replicate (length (dice ds) * 2)
      \<lparr>sides = Undefined, reroll = Num (Fin 0), minRoll = Num (Fin 1)\<rparr>\<rparr>"
proof -
  let ?vs = "map (\<lambda>i. sides (dice ds ! (i mod length (dice ds)))) [0 ..< length (dice ds) * 2]"
  have len: "0 < length (dice ds)"
    using assms(1) by simp
  have "Undefined \<notin> set ?vs"
    using assms(2) len by (auto simp: image_iff)
  then have "dice_from (map Prim ?vs) =
      Inr (replicate (length ?vs) (new_Die Undefined Undefined Undefined))"
    by (rule dice_from_Prim)
  moreover have "crit_sides_loop ds [0 ..< length (dice ds) * 2] = Inr (map Prim ?vs)"
    using assms(1) by (simp add: crit_sides_loop_nonempty comp_def)
  ultimately show ?thesis
    by (simp add: calculateDefaultCritDice_def length_DiceSet_def new_DiceSet_ArrayOf new_Die_def)
qed

text \<open>
  C8, on the code at the set \<open>{d6, d8}\<close>. The result has four dice, with reroll
  threshold 0 and minimum roll 1, but none has a side count: all four have
  \<^verbatim>\<open>undefined\<close> sides, so the result is not \<open>{d6, d8, d6, d8}\<close> and its average is
  \<^verbatim>\<open>NaN\<close>.
\<close>

theorem calculateDefaultCritDice_d6_d8:
  "calculateDefaultCritDice \<lparr>dice = [d6, d8]\<rparr> =
     Inr \<lparr>dice = replicate 4 \<lparr>sides = Undefined, reroll = Num (Fin 0), minRoll = Num (Fin 1)\<rparr>\<rparr> \<and>
   calculateDefaultCritDice \<lparr>dice = [d6, d8]\<rparr> \<noteq> Inr \<lparr>dice = [d6, d8, d6, d8]\<rparr> \<and>
   getAverageRolls
     \<lparr>dice = replicate 4 \<lparr>sides = Undefined, reroll = Num (Fin 0), minRoll = Num (Fin 1)\<rparr>\<rparr> = NaN"
proof -
  have res: "calculateDefaultCritDice \<lparr>dice = [d6, d8]\<rparr> =
     Inr \<lparr>dice = replicate 4 \<lparr>sides = Undefined, reroll = Num (Fin 0), minRoll = Num (Fin 1)\<rparr>\<rparr>"
    using calculateDefaultCritDice_defined_sides [of "\<lparr>dice = [d6, d8]\<rparr>"]
    by (simp add: d6_def d8_def)
  have four: "replicate 4 x = [x, x, x, x]" for x :: Die
    by (simp add: numeral_eq_Suc)
  have avg: "getAverageRolls
     \<lparr>dice = replicate 4 \<lparr>sides = Undefined, reroll = Num (Fin 0), minRoll = Num (Fin 1)\<rparr>\<rparr> = NaN"
    by (simp add: getAverageRolls_def four getAverageRoll_undefined_sides)
  show ?thesis
    using res avg by (simp add: four d6_def)
qed

section \<open>The probability functions\<close>

text \<open>
  C5. For an advantage modifier \<open>M\<close> among 1, 2 and 3 and every armor class \<open>A\<close> and
  bonus \<open>B\<close>: when \<open>A - B \<ge> 20\<close> or \<open>A - B \<le> 2\<close>, \<^verbatim>\<open>p_hit\<close> returns
  \<open>1 - (1 - 0.05) ^ M\<close>; otherwise it returns \<open>1 - (1 - (21 + B - A) / 20) ^ M\<close>; and
  the result lies between 0 and 1.
\<close>

theorem p_hit_branches_and_range:
  assumes "M \<in> {1, 2, 3}"
  shows "p_hit A B M =
           (if A - B \<ge> 20 \<or> A - B \<le> 2 then 1 - (1 - 0.05) ^ M
            else 1 - (1 - (21 + B - A) / 20) ^ M) \<and>
         0 \<le> p_hit A B M \<and> p_hit A B M \<le> 1"
proof -
  have eq: "p_hit A B M =
           (if A - B \<ge> 20 \<or> A - B \<le> 2 then 1 - (1 - 0.05) ^ M
            else 1 - (1 - (21 + B - A) / 20) ^ M)"
    by (auto simp: p_hit_def)
  define x where
    "x = (if A - B \<ge> 20 \<or> A - B \<le> 2 then (1 - 0.05 :: real) else 1 - (21 + B - A) / 20)"
  have px: "p_hit A B M = 1 - x ^ M"
    unfolding eq x_def by simp
  have "0 \<le> x" and "x \<le> 1"
    unfolding x_def by (auto simp: field_simps)
  then have "0 \<le> x ^ M" and "x ^ M \<le> 1"
    by (simp_all add: power_le_one)
  then show ?thesis
    using eq px by simp
qed

text \<open>With advantage, armor class 15 against a bonus of 4: the linear branch, 3/4.\<close>

theorem p_hit_branches_and_range_witness:
  "(2::nat) \<in> {1, 2, 3} \<and> p_hit 15 4 2 = 3 / 4 \<and> 0 \<le> p_hit 15 4 2 \<and> p_hit 15 4 2 \<le> 1"
  using p_hit_branches_and_range [of 2 15 4] by (simp add: power2_eq_square)

text \<open>
  C6, on the code at a bonus of 10. Armor class 12 is hit with probability 1/20 and
  the higher armor class 13 with probability 9/10: raising the armor class from 12 to
  13 raises the probability, so \<^verbatim>\<open>p_hit\<close> with one roll is not non-increasing in the
  armor class.
\<close>

theorem p_hit_rises_from_AC_12_to_13:
  "p_hit 12 10 1 = 1 / 20 \<and> p_hit 13 10 1 = 9 / 10 \<and> \<not> p_hit 12 10 1 \<ge> p_hit 13 10 1"
  by (simp add: p_hit_def)

text \<open>
  C7. For every armor class \<open>A\<close> and bonus \<open>B\<close>, the probability with two rolls is the
  one-roll probability composed over two independent rolls:
  \<open>p_hit A B 2 = 1 - (1 - p_hit A B 1)\<^sup>2\<close>.
\<close>

theorem p_hit_advantage_scaling: "p_hit A B 2 = 1 - (1 - p_hit A B 1) ^ 2"
  by (simp add: p_hit_def)

lemma p_hit_my_attack: "p_hit 15 4 2 = 3 / 4"
  by (simp add: p_hit_def power2_eq_square)

lemma p_crit_my_attack: "p_crit 20 2 = 39 / 400"
  by (simp add: p_crit_def power2_eq_square)

section \<open>Attack: the damage figures\<close>

text \<open>
  When the dice fields hold the arrays of object literals, the figures are those of
  the worked example: 5.25 from the dice, 11.25 from the bonus, 3.315 from the critical
  factor, 19.815 in total.
\<close>

lemma my_attack_arrays_total:
  "getAverageFromDice my_attack_arrays = Inr (Fin (21 / 4)) \<and>
   getAverageFromBonus my_attack_arrays = Fin (45 / 4) \<and>
   getAverageFromCritFactor my_attack_arrays = Inr (Fin (663 / 200)) \<and>
   getAverageTotal my_attack_arrays = Inr (Fin (3963 / 200))"
  by (simp add: getAverageTotal_def getAverageFromDice_def getAverageFromBonus_def
      getAverageFromCritFactor_def my_attack_arrays_def new_Attack_def
      getEffectiveAttackBonus_def getEffectiveDamageBonus_def
      new_DiceSet_specs_2d6 new_DiceSet_specs_4d6_6d8 getAverageRolls_2d6
      getAverageRolls_4d6_6d8 p_hit_my_attack p_crit_my_attack js_sub_def)

text \<open>
  C1, on the code at the attack of the worked example, its dice fields holding the
  2d6 and the 4d6+6d8 \<^verbatim>\<open>DiceSet\<close> (averages 7 and 41). The dice contribute nothing:
  \<^verbatim>\<open>getAverageFromDice\<close> returns 0 and not 5.25, \<^verbatim>\<open>getAverageFromCritFactor\<close> returns
  0 and not 3.315, \<^verbatim>\<open>getAverageFromBonus\<close> returns 11.25, and \<^verbatim>\<open>getAverageTotal\<close>
  returns 11.25 and not 19.815.
\<close>

theorem my_attack_DiceSet_fields_total:
  "new_DiceSet (ArrayOf specs_2d6) = Inr dice_2d6 \<and>
   new_DiceSet (ArrayOf specs_4d6_6d8) = Inr dice_4d6_6d8 \<and>
   getAverageRolls dice_2d6 = Fin 7 \<and>
   getAverageRolls dice_4d6_6d8 = Fin 41 \<and>
   getAverageFromDice my_attack = Inr (Fin 0) \<and>
   getAverageFromBonus my_attack = Fin (45 / 4) \<and>
   getAverageFromCritFactor my_attack = Inr (Fin 0) \<and>
   getAverageTotal my_attack = Inr (Fin (45 / 4))"
  by (simp add: getAverageTotal_def getAverageFromDice_def getAverageFromBonus_def
      getAverageFromCritFactor_def my_attack_def new_Attack_def
      getEffectiveAttackBonus_def getEffectiveDamageBonus_def
      new_DiceSet_specs_2d6 new_DiceSet_specs_4d6_6d8 getAverageRolls_2d6
      getAverageRolls_4d6_6d8 new_DiceSet_InstanceOf getAverageRolls_empty
      p_hit_my_attack p_crit_my_attack js_sub_def)

text \<open>
  When \<^verbatim>\<open>damage_dice\<close> holds an array of objects, \<^verbatim>\<open>getAverageFromDice\<close> is the hit
  probability times the sum of the averages of the dice built from them.
\<close>

lemma getAverageFromDice_array_of_objects:
  assumes "damage_dice a = ArrayOf (map (\<lambda>(s, r, m, i). Obj s r m i) specs)"
  shows "getAverageFromDice a =
    Inr (js_mul
      (Fin (p_hit (target_AC a) (getEffectiveAttackBonus a) (advantage_modifier a)))
      (getAverageRolls \<lparr>dice = map (\<lambda>(s, r, m, i). new_Die s r m) specs\<rparr>))"
proof -
  have "dice_from (map (\<lambda>(s, r, m, i). Obj s r m i) specs) =
     Inr (map (\<lambda>(s, r, m, i). new_Die s r m) specs)"
    by (induction specs) auto
  then show ?thesis
    using assms by (simp add: getAverageFromDice_def new_DiceSet_ArrayOf)
qed

text \<open>
  C2, on the code at an attack whose \<^verbatim>\<open>damage_dice\<close> is the \<^verbatim>\<open>DiceSet\<close> of one d8.
  \<^verbatim>\<open>getAverageFromDice\<close> returns 0, while the hit probability times the average of
  that \<^verbatim>\<open>DiceSet\<close> is 0.55 * 4.5 = 2.475.
\<close>

theorem longsword_getAverageFromDice:
  "getAverageFromDice longsword = Inr (Fin 0) \<and>
   js_mul
     (Fin (p_hit (target_AC longsword) (getEffectiveAttackBonus longsword)
       (advantage_modifier longsword)))
     (getAverageRolls \<lparr>dice = [d8]\<rparr>) = Fin (99 / 40)"
  by (simp add: longsword_def new_Attack_def getAverageFromDice_def new_DiceSet_InstanceOf
      getAverageRolls_def getAverageRoll_d8 p_hit_def getEffectiveAttackBonus_def)

text \<open>
  C3. For every attack whose \<^verbatim>\<open>damage_dice\<close> and \<^verbatim>\<open>crit_dice\<close> hold \<^verbatim>\<open>DiceSet\<close>
  instances, the constructor applied to each builds an empty dice list,
  \<^verbatim>\<open>getAverageFromDice\<close> returns the hit probability times 0,
  \<^verbatim>\<open>getAverageFromCritFactor\<close> returns the critical probability times 0, and
  \<^verbatim>\<open>getAverageTotal\<close> equals \<^verbatim>\<open>getAverageFromBonus\<close>.
\<close>

theorem DiceSet_fields_contribute_nothing:
  assumes "damage_dice a = InstanceOf ds" and "crit_dice a = InstanceOf cs"
  shows "new_DiceSet (damage_dice a) = Inr \<lparr>dice = []\<rparr> \<and>
     new_DiceSet (crit_dice a) = Inr \<lparr>dice = []\<rparr> \<and>
     getAverageFromDice a =
       Inr (Fin (p_hit (target_AC a) (getEffectiveAttackBonus a) (advantage_modifier a) * 0)) \<and>
     getAverageFromCritFactor a =
       Inr (Fin (p_crit (crit_range a) (advantage_modifier a) * 0)) \<and>
     getAverageTotal a = Inr (getAverageFromBonus a)"
  using assms
  by (simp add: getAverageTotal_def getAverageFromDice_def getAverageFromBonus_def
      getAverageFromCritFactor_def new_DiceSet_InstanceOf getAverageRolls_empty js_sub_def)

text \<open>The attack with one d8: the total is the bonus figure, 0.55 * 3 = 1.65.\<close>

theorem DiceSet_fields_contribute_nothing_witness:
  "damage_dice longsword = InstanceOf \<lparr>dice = [d8]\<rparr> \<and>
   crit_dice longsword = InstanceOf \<lparr>dice = [d8, d8]\<rparr> \<and>
   getAverageFromCritFactor longsword = Inr (Fin 0) \<and>
   getAverageTotal longsword = Inr (Fin (33 / 20)) \<and>
   getAverageFromBonus longsword = Fin (33 / 20)"
  using DiceSet_fields_contribute_nothing [of longsword "\<lparr>dice = [d8]\<rparr>" "\<lparr>dice = [d8, d8]\<rparr>"]
  by (simp add: longsword_def new_Attack_def getAverageFromBonus_def p_hit_def
      getEffectiveAttackBonus_def getEffectiveDamageBonus_def)

end
